theory Spec2Isabelle
  imports Main "HOL-Library.Word" "HOL-Library.AList"
begin

section \<open>The converters of \<open>internal/api/grpc/object/v2beta/converter.go\<close>\<close>

subsection \<open>List queries\<close>

text \<open>
  The generated message \<open>object.ListQuery\<close> carries \<open>Offset uint64\<close>, \<open>Limit uint32\<close>
  and \<open>Asc bool\<close>. The converters take a pointer to it; \<open>None\<close> is the nil pointer.
\<close>

record ListQuery =
  Offset :: "64 word"
  Limit :: "32 word"
  Asc :: bool

text \<open>
  \<^verbatim>\<open>
  func ListQueryToQuery(query *object.ListQuery) (offset, limit uint64, asc bool) {
      if query == nil {
          return 0, 0, false
      }
      return query.Offset, uint64(query.Limit), query.Asc
  }
  \<close>
  The conversion \<open>uint64(query.Limit)\<close> of a \<open>uint32\<close> is the zero extension \<open>ucast\<close>.
\<close>

definition ListQueryToQuery :: "ListQuery option \<Rightarrow> 64 word \<times> 64 word \<times> bool" where
  "ListQueryToQuery query =
     (case query of
        None \<Rightarrow> (0, 0, False)
      | Some q \<Rightarrow> (Offset q, ucast (Limit q), Asc q))"

definition ListQueryToModel :: "ListQuery option \<Rightarrow> 64 word \<times> 64 word \<times> bool" where
  "ListQueryToModel query =
     (case query of
        None \<Rightarrow> (0, 0, False)
      | Some q \<Rightarrow> (Offset q, ucast (Limit q), Asc q))"

subsection \<open>Text query methods\<close>

text \<open>
  \<open>object.TextQueryMethod\<close> is a generated protobuf enum, an \<open>int32\<close>;
  \<open>query.TextComparison\<close> is an integer type of the query package. The declarations of
  their named constants are not part of the sources at hand, so the two families of
  constants are parameters of the translation: a record of the eight generated
  \<open>TextQueryMethod\<close> values and a record of the eight \<open>TextComparison\<close> kinds the
  function mentions.
\<close>

type_synonym TextQueryMethod = "32 word"
type_synonym TextComparison = int

record TextQueryMethod_consts =
  TextQueryMethod_TEXT_QUERY_METHOD_EQUALS :: TextQueryMethod
  TextQueryMethod_TEXT_QUERY_METHOD_EQUALS_IGNORE_CASE :: TextQueryMethod
  TextQueryMethod_TEXT_QUERY_METHOD_STARTS_WITH :: TextQueryMethod
  TextQueryMethod_TEXT_QUERY_METHOD_STARTS_WITH_IGNORE_CASE :: TextQueryMethod
  TextQueryMethod_TEXT_QUERY_METHOD_CONTAINS :: TextQueryMethod
  TextQueryMethod_TEXT_QUERY_METHOD_CONTAINS_IGNORE_CASE :: TextQueryMethod
  TextQueryMethod_TEXT_QUERY_METHOD_ENDS_WITH :: TextQueryMethod
  TextQueryMethod_TEXT_QUERY_METHOD_ENDS_WITH_IGNORE_CASE :: TextQueryMethod

record TextComparison_consts =
  TextEquals :: TextComparison
  TextEqualsIgnoreCase :: TextComparison
  TextStartsWith :: TextComparison
  TextStartsWithIgnoreCase :: TextComparison
  TextContains :: TextComparison
  TextContainsIgnoreCase :: TextComparison
  TextEndsWith :: TextComparison
  TextEndsWithIgnoreCase :: TextComparison

text \<open>
  \<^verbatim>\<open>
  func TextMethodToQuery(method object.TextQueryMethod) query.TextComparison {
      switch method {
      case object.TextQueryMethod_TEXT_QUERY_METHOD_EQUALS:
          return query.TextEquals
      case object.TextQueryMethod_TEXT_QUERY_METHOD_EQUALS_IGNORE_CASE:
          return query.TextEqualsIgnoreCase
      case object.TextQueryMethod_TEXT_QUERY_METHOD_STARTS_WITH:
          return query.TextStartsWith
      case object.TextQueryMethod_TEXT_QUERY_METHOD_STARTS_WITH_IGNORE_CASE:
          return query.TextStartsWithIgnoreCase
      case object.TextQueryMethod_TEXT_QUERY_METHOD_CONTAINS:
          return query.TextContains
      case object.TextQueryMethod_TEXT_QUERY_METHOD_CONTAINS_IGNORE_CASE:
          return query.TextContainsIgnoreCase
      case object.TextQueryMethod_TEXT_QUERY_METHOD_ENDS_WITH:
          return query.TextEndsWith
      case object.TextQueryMethod_TEXT_QUERY_METHOD_ENDS_WITH_IGNORE_CASE:
          return query.TextEndsWithIgnoreCase
      default:
          return -1
      }
  }
  \<close>
  The cases are tried in the order of the source.
\<close>

definition TextMethodToQuery ::
    "TextQueryMethod_consts \<Rightarrow> TextComparison_consts \<Rightarrow> TextQueryMethod \<Rightarrow> TextComparison" where
  "TextMethodToQuery object query method =
     (if method = TextQueryMethod_TEXT_QUERY_METHOD_EQUALS object then TextEquals query
      else if method = TextQueryMethod_TEXT_QUERY_METHOD_EQUALS_IGNORE_CASE object
        then TextEqualsIgnoreCase query
      else if method = TextQueryMethod_TEXT_QUERY_METHOD_STARTS_WITH object
        then TextStartsWith query
      else if method = TextQueryMethod_TEXT_QUERY_METHOD_STARTS_WITH_IGNORE_CASE object
        then TextStartsWithIgnoreCase query
      else if method = TextQueryMethod_TEXT_QUERY_METHOD_CONTAINS object
        then TextContains query
      else if method = TextQueryMethod_TEXT_QUERY_METHOD_CONTAINS_IGNORE_CASE object
        then TextContainsIgnoreCase query
      else if method = TextQueryMethod_TEXT_QUERY_METHOD_ENDS_WITH object
        then TextEndsWith query
      else if method = TextQueryMethod_TEXT_QUERY_METHOD_ENDS_WITH_IGNORE_CASE object
        then TextEndsWithIgnoreCase query
      else - 1)"

text \<open>The eight recognised methods and the eight valid comparison kinds, in case order.\<close>

definition recognized_methods :: "TextQueryMethod_consts \<Rightarrow> TextQueryMethod list" where
  "recognized_methods object =
     [TextQueryMethod_TEXT_QUERY_METHOD_EQUALS object,
      TextQueryMethod_TEXT_QUERY_METHOD_EQUALS_IGNORE_CASE object,
      TextQueryMethod_TEXT_QUERY_METHOD_STARTS_WITH object,
      TextQueryMethod_TEXT_QUERY_METHOD_STARTS_WITH_IGNORE_CASE object,
      TextQueryMethod_TEXT_QUERY_METHOD_CONTAINS object,
      TextQueryMethod_TEXT_QUERY_METHOD_CONTAINS_IGNORE_CASE object,
      TextQueryMethod_TEXT_QUERY_METHOD_ENDS_WITH object,
      TextQueryMethod_TEXT_QUERY_METHOD_ENDS_WITH_IGNORE_CASE object]"

definition valid_comparisons :: "TextComparison_consts \<Rightarrow> TextComparison list" where
  "valid_comparisons query =
     [TextEquals query, TextEqualsIgnoreCase query,
      TextStartsWith query, TextStartsWithIgnoreCase query,
      TextContains query, TextContainsIgnoreCase query,
      TextEndsWith query, TextEndsWithIgnoreCase query]"

text \<open>
  A concrete instance of the two parameters, used to evaluate the translation: both
  families numbered from 0 in the order of the cases.
\<close>

definition sample_TextQueryMethod :: TextQueryMethod_consts where
  "sample_TextQueryMethod =
     \<lparr>TextQueryMethod_TEXT_QUERY_METHOD_EQUALS = 0,
      TextQueryMethod_TEXT_QUERY_METHOD_EQUALS_IGNORE_CASE = 1,
      TextQueryMethod_TEXT_QUERY_METHOD_STARTS_WITH = 2,
      TextQueryMethod_TEXT_QUERY_METHOD_STARTS_WITH_IGNORE_CASE = 3,
      TextQueryMethod_TEXT_QUERY_METHOD_CONTAINS = 4,
      TextQueryMethod_TEXT_QUERY_METHOD_CONTAINS_IGNORE_CASE = 5,
      TextQueryMethod_TEXT_QUERY_METHOD_ENDS_WITH = 6,
      TextQueryMethod_TEXT_QUERY_METHOD_ENDS_WITH_IGNORE_CASE = 7\<rparr>"

definition sample_TextComparison :: TextComparison_consts where
  "sample_TextComparison =
     \<lparr>TextEquals = 0, TextEqualsIgnoreCase = 1,
      TextStartsWith = 2, TextStartsWithIgnoreCase = 3,
      TextContains = 4, TextContainsIgnoreCase = 5,
      TextEndsWith = 6, TextEndsWithIgnoreCase = 7\<rparr>"

subsection \<open>Domain validation types\<close>

text \<open>
  \<open>domain.OrgDomainValidationType\<close> is an integer type of the domain package and
  \<open>org_pb.DomainValidationType\<close> a generated protobuf enum (\<open>int32\<close>). As for the text
  methods, the declarations of their constants are not part of the sources at hand and
  are parameters of the two converters.
\<close>

type_synonym OrgDomainValidationType = int
type_synonym DomainValidationType = "32 word"

record OrgDomainValidationType_consts =
  OrgDomainValidationTypeUnspecified :: OrgDomainValidationType
  OrgDomainValidationTypeHTTP :: OrgDomainValidationType
  OrgDomainValidationTypeDNS :: OrgDomainValidationType

record DomainValidationType_consts =
  DomainValidationType_DOMAIN_VALIDATION_TYPE_UNSPECIFIED :: DomainValidationType
  DomainValidationType_DOMAIN_VALIDATION_TYPE_HTTP :: DomainValidationType
  DomainValidationType_DOMAIN_VALIDATION_TYPE_DNS :: DomainValidationType

text \<open>
  \<^verbatim>\<open>
  func DomainValidationTypeFromModel(validationType domain.OrgDomainValidationType) org_pb.DomainValidationType {
      switch validationType {
      case domain.OrgDomainValidationTypeDNS:
          return org_pb.DomainValidationType_DOMAIN_VALIDATION_TYPE_DNS
      case domain.OrgDomainValidationTypeHTTP:
          return org_pb.DomainValidationType_DOMAIN_VALIDATION_TYPE_HTTP
      default:
          return org_pb.DomainValidationType_DOMAIN_VALIDATION_TYPE_UNSPECIFIED
      }
  }
  \<close>
\<close>

definition DomainValidationTypeFromModel ::
    "OrgDomainValidationType_consts \<Rightarrow> DomainValidationType_consts \<Rightarrow>
     OrgDomainValidationType \<Rightarrow> DomainValidationType" where
  "DomainValidationTypeFromModel domain org_pb validationType =
     (if validationType = OrgDomainValidationTypeDNS domain
        then DomainValidationType_DOMAIN_VALIDATION_TYPE_DNS org_pb
      else if validationType = OrgDomainValidationTypeHTTP domain
        then DomainValidationType_DOMAIN_VALIDATION_TYPE_HTTP org_pb
      else DomainValidationType_DOMAIN_VALIDATION_TYPE_UNSPECIFIED org_pb)"

text \<open>
  \<^verbatim>\<open>
  func DomainValidationTypeToDomain(validationType org_pb.DomainValidationType) domain.OrgDomainValidationType {
      switch validationType {
      case org_pb.DomainValidationType_DOMAIN_VALIDATION_TYPE_HTTP:
          return domain.OrgDomainValidationTypeHTTP
      case org_pb.DomainValidationType_DOMAIN_VALIDATION_TYPE_DNS:
          return domain.OrgDomainValidationTypeDNS
      default:
          return domain.OrgDomainValidationTypeUnspecified
      }
  }
  \<close>
\<close>

definition DomainValidationTypeToDomain ::
    "OrgDomainValidationType_consts \<Rightarrow> DomainValidationType_consts \<Rightarrow>
     DomainValidationType \<Rightarrow> OrgDomainValidationType" where
  "DomainValidationTypeToDomain domain org_pb validationType =
     (if validationType = DomainValidationType_DOMAIN_VALIDATION_TYPE_HTTP org_pb
        then OrgDomainValidationTypeHTTP domain
      else if validationType = DomainValidationType_DOMAIN_VALIDATION_TYPE_DNS org_pb
        then OrgDomainValidationTypeDNS domain
      else OrgDomainValidationTypeUnspecified domain)"

text \<open>A concrete instance of the parameters: both enumerations numbered 0, 1, 2.\<close>

definition sample_OrgDomainValidationType :: OrgDomainValidationType_consts where
  "sample_OrgDomainValidationType =
     \<lparr>OrgDomainValidationTypeUnspecified = 0,
      OrgDomainValidationTypeHTTP = 1,
      OrgDomainValidationTypeDNS = 2\<rparr>"

definition sample_DomainValidationType :: DomainValidationType_consts where
  "sample_DomainValidationType =
     \<lparr>DomainValidationType_DOMAIN_VALIDATION_TYPE_UNSPECIFIED = 0,
      DomainValidationType_DOMAIN_VALIDATION_TYPE_HTTP = 1,
      DomainValidationType_DOMAIN_VALIDATION_TYPE_DNS = 2\<rparr>"

subsection \<open>Details with optional timestamps\<close>

text \<open>
  Go's \<open>time.Time\<close> is an instant: \<open>sec\<close> seconds since January 1 of year 1, 00:00:00 UTC
  (an \<open>int64\<close>) and \<open>nsec\<close> nanoseconds within that second. \<open>IsZero\<close> holds of that
  first instant alone. \<open>timestamppb.New\<close> builds the protobuf \<open>Timestamp\<close> with
  \<open>Seconds = t.Unix()\<close>, the seconds since January 1 of 1970 (62135596800 seconds
  later, computed in \<open>int64\<close>), and \<open>Nanos = int32(t.Nanosecond())\<close>.
\<close>

record Time =
  sec :: "64 word"
  nsec :: "32 word"

definition IsZero :: "Time \<Rightarrow> bool" where
  "IsZero t \<longleftrightarrow> sec t = 0 \<and> nsec t = 0"

record Timestamp =
  Seconds :: "64 word"
  Nanos :: "32 word"

definition timestamppb_New :: "Time \<Rightarrow> Timestamp" where
  "timestamppb_New t = \<lparr>Seconds = sec t - 62135596800, Nanos = nsec t\<rparr>"

text \<open>
  The fields of \<open>domain.ObjectDetails\<close> the converters read, and the generated message
  \<open>object.Details\<close>, whose two timestamps are pointers: \<open>None\<close> is the unset field.
\<close>

record ObjectDetails =
  Sequence :: "64 word"
  EventDate :: Time
  CreationDate :: Time
  ResourceOwner :: string

record Details =
  Sequence :: "64 word"
  ChangeDate :: "Timestamp option"
  ResourceOwner :: string
  CreationDate :: "Timestamp option"

text \<open>A converter that takes a pointer panics when it dereferences nil.\<close>

datatype panic = NilPointerDereference

text \<open>
  \<^verbatim>\<open>
  func DomainToDetailsPb(objectDetail *domain.ObjectDetails) *object.Details {
      details := &object.Details{
          Sequence:      objectDetail.Sequence,
          ResourceOwner: objectDetail.ResourceOwner,
      }
      if !objectDetail.EventDate.IsZero() {
          details.ChangeDate = timestamppb.New(objectDetail.EventDate)
      }
      if !objectDetail.CreationDate.IsZero() {
          details.CreationDate = timestamppb.New(objectDetail.CreationDate)
      }
      return details
  }
  \<close>
\<close>

definition DomainToDetailsPb :: "ObjectDetails option \<Rightarrow> panic + Details" where
  "DomainToDetailsPb objectDetail =
     (case objectDetail of
        None \<Rightarrow> Inl NilPointerDereference
      | Some od \<Rightarrow>
          (let details = \<lparr>Details.Sequence = ObjectDetails.Sequence od,
                          Details.ChangeDate = None,
                          Details.ResourceOwner = ObjectDetails.ResourceOwner od,
                          Details.CreationDate = None\<rparr>;
               details = (if \<not> IsZero (ObjectDetails.EventDate od)
                          then details\<lparr>Details.ChangeDate :=
                                 Some (timestamppb_New (ObjectDetails.EventDate od))\<rparr>
                          else details);
               details = (if \<not> IsZero (ObjectDetails.CreationDate od)
                          then details\<lparr>Details.CreationDate :=
                                 Some (timestamppb_New (ObjectDetails.CreationDate od))\<rparr>
                          else details)
           in Inr details))"

text \<open>
  \<^verbatim>\<open>
  func ToViewDetailsPb(sequence uint64, creationDate, changeDate time.Time,
      resourceOwner string) *object.Details {
      details := &object.Details{
          Sequence:      sequence,
          ResourceOwner: resourceOwner,
      }
      if !creationDate.IsZero() {
          details.CreationDate = timestamppb.New(creationDate)
      }
      if !changeDate.IsZero() {
          details.ChangeDate = timestamppb.New(changeDate)
      }
      return details
  }
  \<close>
\<close>

definition ToViewDetailsPb :: "64 word \<Rightarrow> Time \<Rightarrow> Time \<Rightarrow> string \<Rightarrow> Details" where
  "ToViewDetailsPb sequence creationDate changeDate resourceOwner =
     (let details = \<lparr>Details.Sequence = sequence,
                     Details.ChangeDate = None,
                     Details.ResourceOwner = resourceOwner,
                     Details.CreationDate = None\<rparr>;
          details = (if \<not> IsZero creationDate
                     then details\<lparr>Details.CreationDate := Some (timestamppb_New creationDate)\<rparr>
                     else details);
          details = (if \<not> IsZero changeDate
                     then details\<lparr>Details.ChangeDate := Some (timestamppb_New changeDate)\<rparr>
                     else details)
      in details)"

text \<open>
  \<^verbatim>\<open>
  func DomainToChangeDetailsPb(objectDetail *domain.ObjectDetails) *object.Details {
      details := &object.Details{
          Sequence:      objectDetail.Sequence,
          ResourceOwner: objectDetail.ResourceOwner,
      }
      if !objectDetail.EventDate.IsZero() {
          details.ChangeDate = timestamppb.New(objectDetail.EventDate)
      }
      return details
  }
  \<close>
\<close>

definition DomainToChangeDetailsPb :: "ObjectDetails option \<Rightarrow> panic + Details" where
  "DomainToChangeDetailsPb objectDetail =
     (case objectDetail of
        None \<Rightarrow> Inl NilPointerDereference
      | Some od \<Rightarrow>
          (let details = \<lparr>Details.Sequence = ObjectDetails.Sequence od,
                          Details.ChangeDate = None,
                          Details.ResourceOwner = ObjectDetails.ResourceOwner od,
                          Details.CreationDate = None\<rparr>;
               details = (if \<not> IsZero (ObjectDetails.EventDate od)
                          then details\<lparr>Details.ChangeDate :=
                                 Some (timestamppb_New (ObjectDetails.EventDate od))\<rparr>
                          else details)
           in Inr details))"

section \<open>The organization service behind the integration tests\<close>

text \<open>
  The second half of the source file is the integration test suite of the organization
  service (\<open>OrganizationServiceClient\<close>). The service itself is not part of the sources
  at hand: only its calls and the asserted outcomes are. It is modelled here from the
  specification, with the error texts the tests assert.

  An operation takes the state of the service and returns its outcome, an error or a
  response, and the state of the service after it.
\<close>

text \<open>
  Modelled from the spec: the state of an organization, which the service declares
  outside the sources. "Organization: id, name, state in ACTIVE, INACTIVE".
\<close>

datatype OrgState = ORG_STATE_ACTIVE | ORG_STATE_INACTIVE

text \<open>
  Modelled from the spec: the organization as the service stores it, which is missing
  from the sources: its name, its state, the names of its attached domains and its
  metadata entries, "key, value: byte sequence, keyed uniquely per organization". The
  state of the service is the list of its organizations by identifier.
\<close>

record Organization =
  Name :: string
  State :: OrgState
  Domains :: "string list"
  Metadata :: "(string \<times> 8 word list) list"

type_synonym Service = "(string \<times> Organization) list"

text \<open>
  Modelled from the spec: the errors of the service, which are declared outside the
  sources. "Error taxonomy observed: NotFound (resource/domain absent), AlreadyExists
  (duplicate domain/admin), Conflict (no-op state transition), Validation (empty
  required field, invalid admin type)." Each error carries its message.
\<close>

datatype error =
    NotFound string
  | AlreadyExists string
  | Conflict string
  | Validation string

text \<open>
  Modelled from the spec: \<open>DeactivateOrganization\<close> of the organization service, which is
  missing from the sources. "State machine per organization: ACTIVE <-> INACTIVE via
  deactivate/reactivate; both transitions reject (conflict error) when invoked on a
  resource already in the target state." The tests expect "Organisation not found" for
  an unknown identifier and "Organisation is already deactivated" for the repeated call.
\<close>

definition DeactivateOrganization :: "Service \<Rightarrow> string \<Rightarrow> (error + unit) \<times> Service" where
  "DeactivateOrganization s orgId =
     (case map_of s orgId of
        None \<Rightarrow> (Inl (NotFound ''Organisation not found''), s)
      | Some org \<Rightarrow>
          if State org = ORG_STATE_INACTIVE
          then (Inl (Conflict ''Organisation is already deactivated''), s)
          else (Inr (), AList.update orgId (org\<lparr>State := ORG_STATE_INACTIVE\<rparr>) s))"

text \<open>
  Modelled from the spec: \<open>ReactivateOrganization\<close> of the organization service, which is
  missing from the sources; the mirror image of deactivation. The tests expect
  "Organisation is already active" for the repeated call.
\<close>

definition ReactivateOrganization :: "Service \<Rightarrow> string \<Rightarrow> (error + unit) \<times> Service" where
  "ReactivateOrganization s orgId =
     (case map_of s orgId of
        None \<Rightarrow> (Inl (NotFound ''Organisation not found''), s)
      | Some org \<Rightarrow>
          if State org = ORG_STATE_ACTIVE
          then (Inl (Conflict ''Organisation is already active''), s)
          else (Inr (), AList.update orgId (org\<lparr>State := ORG_STATE_ACTIVE\<rparr>) s))"

text \<open>
  Modelled from the spec: \<open>DeleteOrganization\<close> of the organization service, which is
  missing from the sources. "delete is terminal": the organization is removed. The tests
  expect "Organisation not found" for an unknown identifier.
\<close>

definition DeleteOrganization :: "Service \<Rightarrow> string \<Rightarrow> (error + unit) \<times> Service" where
  "DeleteOrganization s orgId =
     (case map_of s orgId of
        None \<Rightarrow> (Inl (NotFound ''Organisation not found''), s)
      | Some org \<Rightarrow> (Inr (), AList.delete orgId s))"

text \<open>
  Modelled from the spec: \<open>ListOrganizations\<close> of the organization service, which is
  missing from the sources. A request carries filter clauses, all of which a listed
  organization meets: a clause on the identifier, a clause on the state, or any other
  clause (on the name or on a domain, with one of the text methods), kept as a predicate
  on the organization.
\<close>

datatype OrgQuery =
    OrgIDQuery string
  | OrgStateQuery OrgState
  | OrgOtherQuery "Organization \<Rightarrow> bool"

text \<open>
  Modelled from the spec: when an organization meets one filter clause of
  \<open>ListOrganizations\<close>; the service's own matching is missing from the sources.
\<close>

fun matches :: "OrgQuery \<Rightarrow> string \<times> Organization \<Rightarrow> bool" where
  "matches (OrgIDQuery i) (orgId, org) = (orgId = i)"
| "matches (OrgStateQuery st) (orgId, org) = (State org = st)"
| "matches (OrgOtherQuery p) (orgId, org) = p org"

text \<open>
  Modelled from the spec: the answer of \<open>ListOrganizations\<close>, missing from the sources:
  the organizations that meet every clause of the request. Listing does not fail.
\<close>

definition ListOrganizations ::
    "Service \<Rightarrow> OrgQuery list \<Rightarrow> error + (string \<times> Organization) list" where
  "ListOrganizations s queries = Inr (filter (\<lambda>entry. list_all (\<lambda>q. matches q entry) queries) s)"

text \<open>
  Modelled from the spec: \<open>AddOrganizationDomain\<close> of the organization service, which is
  missing from the sources. "add fails with an already-exists error on duplicate"; the
  tests expect the text "Errors.Already.Exists".
\<close>

definition AddOrganizationDomain ::
    "Service \<Rightarrow> string \<Rightarrow> string \<Rightarrow> (error + unit) \<times> Service" where
  "AddOrganizationDomain s orgId domain =
     (case map_of s orgId of
        None \<Rightarrow> (Inl (NotFound ''Organisation not found''), s)
      | Some org \<Rightarrow>
          if domain \<in> set (Domains org)
          then (Inl (AlreadyExists ''Errors.Already.Exists''), s)
          else (Inr (), AList.update orgId (org\<lparr>Domains := Domains org @ [domain]\<rparr>) s))"

text \<open>
  Modelled from the spec: \<open>DeleteOrganizationDomain\<close> of the organization service, which
  is missing from the sources. "delete fails with a doesn't-exist error when absent";
  the tests expect "Domain doesn't exist on organization".
\<close>

definition DeleteOrganizationDomain ::
    "Service \<Rightarrow> string \<Rightarrow> string \<Rightarrow> (error + unit) \<times> Service" where
  "DeleteOrganizationDomain s orgId domain =
     (case map_of s orgId of
        None \<Rightarrow> (Inl (NotFound ''Domain doesn't exist on organization''), s)
      | Some org \<Rightarrow>
          if domain \<notin> set (Domains org)
          then (Inl (NotFound ''Domain doesn't exist on organization''), s)
          else (Inr (), AList.update orgId (org\<lparr>Domains := removeAll domain (Domains org)\<rparr>) s))"

text \<open>
  Modelled from the spec: \<open>ListOrganizationDomains\<close> of the organization service, which
  is missing from the sources: the domain names attached to the organization, none for
  an unknown organization.
\<close>

definition ListOrganizationDomains :: "Service \<Rightarrow> string \<Rightarrow> error + string list" where
  "ListOrganizationDomains s orgId =
     Inr (case map_of s orgId of None \<Rightarrow> [] | Some org \<Rightarrow> Domains org)"

text \<open>
  Modelled from the spec: \<open>GenerateOrganizationDomainValidation\<close> of the organization
  service, which is missing from the sources. "validation-generation (DNS/HTTP) fails
  with a doesn't-exist error if either the organization or the domain under that
  organization cannot be resolved -- both conditions currently collapse to the same
  error message". On success the tests require a token that is not empty and a URL that
  contains the domain.
\<close>

datatype ValidationType = DOMAIN_VALIDATION_TYPE_HTTP | DOMAIN_VALIDATION_TYPE_DNS

record GenerateOrganizationDomainValidationResponse =
  Token :: string
  Url :: string

text \<open>
  Modelled from the spec: the URL of a validation, built by a part of the service that
  is missing from the sources. The specification does not fix its shape beyond the
  tests' demand that it contains the domain; the one used here puts the domain after a
  prefix that depends on the validation type.
\<close>

fun validationUrl :: "ValidationType \<Rightarrow> string \<Rightarrow> string \<Rightarrow> string" where
  "validationUrl DOMAIN_VALIDATION_TYPE_HTTP domain token =
     ''https://'' @ domain @ ''/.well-known/zitadel-challenge/'' @ token"
| "validationUrl DOMAIN_VALIDATION_TYPE_DNS domain token =
     ''_zitadel-challenge.'' @ domain"

text \<open>
  Modelled from the spec: the length of a validation token, a setting of the service's
  token generator, which is missing from the sources. The specification gives neither
  the length nor the alphabet of a token; the tests require that a token is not empty.
\<close>

definition tokenLength :: nat where
  "tokenLength = 32"

text \<open>
  Modelled from the spec: the token generator of the service, missing from the sources.
  It draws \<open>tokenLength\<close> characters from a source of random characters; the source,
  read by position, is the parameter \<open>random\<close>.
\<close>

definition generateToken :: "(nat \<Rightarrow> char) \<Rightarrow> string" where
  "generateToken random = map random [0..<tokenLength]"

text \<open>
  Modelled from the spec: the operation \<open>GenerateOrganizationDomainValidation\<close> itself,
  missing from the sources, with the one error text the tests assert for both failures.
  When organization and domain resolve, it generates a token from the random source it
  is given and answers with the token and the URL built from it.
\<close>

definition GenerateOrganizationDomainValidation ::
    "(nat \<Rightarrow> char) \<Rightarrow> Service \<Rightarrow> string \<Rightarrow> string \<Rightarrow> ValidationType \<Rightarrow>
     error + GenerateOrganizationDomainValidationResponse" where
  "GenerateOrganizationDomainValidation random s orgId domain type =
     (case map_of s orgId of
        None \<Rightarrow> Inl (NotFound ''Domain doesn't exist on organization'')
      | Some org \<Rightarrow>
          if domain \<notin> set (Domains org)
          then Inl (NotFound ''Domain doesn't exist on organization'')
          else
            (let token = generateToken random
             in Inr \<lparr>Token = token, Url = validationUrl type domain token\<rparr>))"

text \<open>A random source to evaluate the generator on: the letters a to z, over and over.\<close>

definition sampleRandom :: "nat \<Rightarrow> char" where
  "sampleRandom i = ''abcdefghijklmnopqrstuvwxyz'' ! (i mod 26)"

text \<open>
  Modelled from the spec: the metadata entries the service holds for an identifier, a
  lookup missing from the sources; an unknown organization has none.
\<close>

definition metadataOf :: "Service \<Rightarrow> string \<Rightarrow> (string \<times> 8 word list) list" where
  "metadataOf s orgId = (case map_of s orgId of None \<Rightarrow> [] | Some org \<Rightarrow> Metadata org)"

text \<open>
  Modelled from the spec: \<open>ListOrganizationMetadata\<close> of the organization service, which
  is missing from the sources. "list returns all entries for a resource, empty for
  unknown resource (no error)".
\<close>

definition ListOrganizationMetadata ::
    "Service \<Rightarrow> string \<Rightarrow> error + (string \<times> 8 word list) list" where
  "ListOrganizationMetadata s orgId = Inr (metadataOf s orgId)"

text \<open>
  Modelled from the spec: \<open>SetOrganizationMetadata\<close> of the organization service, which
  is missing from the sources. "set is a per-key upsert, idempotent under identical
  value"; the tests expect "Organisation not found" for an unknown identifier.
\<close>

definition SetOrganizationMetadata ::
    "Service \<Rightarrow> string \<Rightarrow> (string \<times> 8 word list) list \<Rightarrow> (error + unit) \<times> Service" where
  "SetOrganizationMetadata s orgId metadata =
     (case map_of s orgId of
        None \<Rightarrow> (Inl (NotFound ''Organisation not found''), s)
      | Some org \<Rightarrow>
          (Inr (), AList.update orgId
             (org\<lparr>Metadata := fold (\<lambda>(k, v). AList.update k v) metadata (Metadata org)\<rparr>) s))"

text \<open>
  Modelled from the spec: \<open>DeleteOrganizationMetadata\<close> of the organization service,
  which is missing from the sources. "delete requires every supplied key to currently
  exist -- if any key is absent, the entire batch is rejected with a single error and no
  partial deletion occurs." An unknown organization has no entries, so each of its keys
  is absent. The tests add that a request without keys is rejected with "Metadata list
  is empty", for a known and for an unknown organization alike; the specification gives
  no text for the error of an absent key.
\<close>

definition DeleteOrganizationMetadata ::
    "Service \<Rightarrow> string \<Rightarrow> string list \<Rightarrow> (error + unit) \<times> Service" where
  "DeleteOrganizationMetadata s orgId keys =
     (if keys = [] then (Inl (Validation ''Metadata list is empty''), s)
      else if \<not> list_all (\<lambda>k. k \<in> fst ` set (metadataOf s orgId)) keys
      then (Inl (NotFound ''Metadata not found''), s)
      else
        (case map_of s orgId of
           None \<Rightarrow> (Inl (NotFound ''Metadata not found''), s)
         | Some org \<Rightarrow>
             (Inr (), AList.update orgId
                (org\<lparr>Metadata := filter (\<lambda>(k, v). k \<notin> set keys) (Metadata org)\<rparr>) s)))"

text \<open>
  Modelled from the spec: the requests for the operations above that change the state,
  whose handling is missing from the sources. \<open>CreateOrganization\<close> is not among them:
  the specification does not say how the service allocates the identifier of a new
  organization.
\<close>

datatype Request =
    DeactivateOrganizationRequest string
  | ReactivateOrganizationRequest string
  | DeleteOrganizationRequest string
  | AddOrganizationDomainRequest string string
  | DeleteOrganizationDomainRequest string string
  | SetOrganizationMetadataRequest string "(string \<times> 8 word list) list"
  | DeleteOrganizationMetadataRequest string "string list"

text \<open>
  Modelled from the spec: the state of the service after one request, by the operation
  the request names (the dispatch is missing from the sources). A request that fails
  leaves the state as it is.
\<close>

fun serve :: "Service \<Rightarrow> Request \<Rightarrow> Service" where
  "serve s (DeactivateOrganizationRequest orgId) = snd (DeactivateOrganization s orgId)"
| "serve s (ReactivateOrganizationRequest orgId) = snd (ReactivateOrganization s orgId)"
| "serve s (DeleteOrganizationRequest orgId) = snd (DeleteOrganization s orgId)"
| "serve s (AddOrganizationDomainRequest orgId d) = snd (AddOrganizationDomain s orgId d)"
| "serve s (DeleteOrganizationDomainRequest orgId d) = snd (DeleteOrganizationDomain s orgId d)"
| "serve s (SetOrganizationMetadataRequest orgId md) = snd (SetOrganizationMetadata s orgId md)"
| "serve s (DeleteOrganizationMetadataRequest orgId ks) =
     snd (DeleteOrganizationMetadata s orgId ks)"

text \<open>
  Modelled from the spec: the state of the service after a sequence of requests, served
  one after the other.
\<close>

definition serveAll :: "Service \<Rightarrow> Request list \<Rightarrow> Service" where
  "serveAll s requests = foldl serve s requests"

text \<open>
  Modelled from the spec: the invariant of the service behind "the domain remains listed
  exactly once": in every organization the attached domain names are pairwise different.
\<close>

definition distinctDomains :: "Service \<Rightarrow> bool" where
  "distinctDomains s = list_all (\<lambda>(orgId, org). distinct (Domains org)) s"

text \<open>
  A state to evaluate the operations on: an active organization with a domain and three
  metadata entries, and an inactive one with neither.
\<close>

definition sampleService :: Service where
  "sampleService =
     [(''org1'', \<lparr>Name = ''First'', State = ORG_STATE_ACTIVE, Domains = [''first.example''],
                  Metadata = [(''key4'', [4]), (''key5'', [5]), (''key6'', [6])]\<rparr>),
      (''org2'', \<lparr>Name = ''Second'', State = ORG_STATE_INACTIVE, Domains = [],
                  Metadata = []\<rparr>)]"

section \<open>Properties of the converters\<close>

subsection \<open>List queries\<close>

lemma unat_ucast_Limit: "unat (ucast (w :: 32 word) :: 64 word) = unat w"
proof -
  have "unat w < 2 ^ 32"
    using unsigned_less [of w, where ?'a = nat] by simp
  also have "\<dots> \<le> (2 :: nat) ^ 64" by simp
  finally have "take_bit 64 (unat w) = unat w"
    by (simp add: take_bit_nat_eq_self_iff)
  then show ?thesis by (simp add: unsigned_ucast_eq)
qed

text \<open>
  Claim C5. Applied to the nil query, the list-query translator returns offset 0, limit 0
  and ascending false. Applied to a present query it returns the offset, the limit and
  the ascending flag of that query; the limit is widened from 32 to 64 bits and keeps its
  value. This holds of \<open>ListQueryToQuery\<close> and of \<open>ListQueryToModel\<close>.
\<close>

theorem ListQueryToQuery_nil_and_present:
  "ListQueryToQuery None = (0, 0, False) \<and>
   ListQueryToQuery (Some q) = (Offset q, ucast (Limit q), Asc q) \<and>
   unat (fst (snd (ListQueryToQuery (Some q)))) = unat (Limit q) \<and>
   ListQueryToModel None = (0, 0, False) \<and>
   ListQueryToModel (Some q) = (Offset q, ucast (Limit q), Asc q) \<and>
   unat (fst (snd (ListQueryToModel (Some q)))) = unat (Limit q)"
  by (simp add: ListQueryToQuery_def ListQueryToModel_def unat_ucast_Limit)

theorem ListQueryToQuery_nil_and_present_witness:
  "ListQueryToQuery (Some \<lparr>Offset = 20, Limit = 4294967295, Asc = True\<rparr>) =
     (20, 4294967295, True) \<and>
   ListQueryToModel (Some \<lparr>Offset = 20, Limit = 4294967295, Asc = True\<rparr>) =
     (20, 4294967295, True)"
  using ListQueryToQuery_nil_and_present [of "\<lparr>Offset = 20, Limit = 4294967295, Asc = True\<rparr>"]
  by simp

text \<open>
  Claim C9. \<open>ListQueryToQuery\<close> and \<open>ListQueryToModel\<close> return the same offset, limit
  and ascending flag on every query, the nil query included.
\<close>

theorem ListQueryToQuery_eq_ListQueryToModel:
  "ListQueryToQuery query = ListQueryToModel query"
  by (simp add: ListQueryToQuery_def ListQueryToModel_def)

subsection \<open>Text query methods\<close>

lemma TextMethodToQuery_default:
  "method \<notin> set (recognized_methods object) \<Longrightarrow> TextMethodToQuery object query method = - 1"
  by (simp add: TextMethodToQuery_def recognized_methods_def)

text \<open>The switch is a lookup of the method among the case constants, first match first.\<close>

lemma TextMethodToQuery_lookup:
  "TextMethodToQuery object query method =
     (case map_of (zip (recognized_methods object) (valid_comparisons query)) method of
        Some k \<Rightarrow> k | None \<Rightarrow> - 1)"
  by (simp add: TextMethodToQuery_def recognized_methods_def valid_comparisons_def)

lemma length_recognized_methods: "length (recognized_methods object) = 8"
  by (simp add: recognized_methods_def)

lemma length_valid_comparisons: "length (valid_comparisons query) = 8"
  by (simp add: valid_comparisons_def)

lemma TextMethodToQuery_nth:
  assumes "distinct (recognized_methods object)" and "i < 8"
  shows "TextMethodToQuery object query (recognized_methods object ! i) =
           valid_comparisons query ! i"
proof -
  have "map_of (zip (recognized_methods object) (valid_comparisons query))
          (recognized_methods object ! i) = Some (valid_comparisons query ! i)"
    using assms
    by (intro map_of_zip_nth) (simp_all add: length_recognized_methods length_valid_comparisons)
  then show ?thesis by (simp add: TextMethodToQuery_lookup)
qed

lemma sample_methods_distinct: "distinct (recognized_methods sample_TextQueryMethod)"
  by (simp add: recognized_methods_def sample_TextQueryMethod_def)

lemma sample_comparisons_nonneg:
  "\<forall>k \<in> set (valid_comparisons sample_TextComparison). 0 \<le> k"
  by (simp add: valid_comparisons_def sample_TextComparison_def)

text \<open>
  Claim C1. A method that is none of the eight recognised \<open>TextQueryMethod\<close> values is
  translated to \<open>-1\<close>, and that result is none of the eight valid comparison kinds; each
  of the eight recognised values is translated to its comparison kind: \<open>EQUALS\<close> to
  \<open>TextEquals\<close>, \<open>EQUALS_IGNORE_CASE\<close> to \<open>TextEqualsIgnoreCase\<close>, \<open>STARTS_WITH\<close> to
  \<open>TextStartsWith\<close>, \<open>STARTS_WITH_IGNORE_CASE\<close> to \<open>TextStartsWithIgnoreCase\<close>,
  \<open>CONTAINS\<close> to \<open>TextContains\<close>, \<open>CONTAINS_IGNORE_CASE\<close> to \<open>TextContainsIgnoreCase\<close>,
  \<open>ENDS_WITH\<close> to \<open>TextEndsWith\<close> and \<open>ENDS_WITH_IGNORE_CASE\<close> to
  \<open>TextEndsWithIgnoreCase\<close>. Two facts about the constants are assumed: the eight method
  constants are pairwise different (Go rejects a switch that repeats a constant case),
  and the comparison kinds are not negative.
\<close>

theorem TextMethodToQuery_sentinel:
  assumes "distinct (recognized_methods object)"
    and "\<forall>k \<in> set (valid_comparisons query). 0 \<le> k"
  shows "(method \<notin> set (recognized_methods object) \<longrightarrow>
            TextMethodToQuery object query method = - 1 \<and>
            TextMethodToQuery object query method \<notin> set (valid_comparisons query)) \<and>
         TextMethodToQuery object query (TextQueryMethod_TEXT_QUERY_METHOD_EQUALS object) =
           TextEquals query \<and>
         TextMethodToQuery object query
           (TextQueryMethod_TEXT_QUERY_METHOD_EQUALS_IGNORE_CASE object) =
           TextEqualsIgnoreCase query \<and>
         TextMethodToQuery object query (TextQueryMethod_TEXT_QUERY_METHOD_STARTS_WITH object) =
           TextStartsWith query \<and>
         TextMethodToQuery object query
           (TextQueryMethod_TEXT_QUERY_METHOD_STARTS_WITH_IGNORE_CASE object) =
           TextStartsWithIgnoreCase query \<and>
         TextMethodToQuery object query (TextQueryMethod_TEXT_QUERY_METHOD_CONTAINS object) =
           TextContains query \<and>
         TextMethodToQuery object query
           (TextQueryMethod_TEXT_QUERY_METHOD_CONTAINS_IGNORE_CASE object) =
           TextContainsIgnoreCase query \<and>
         TextMethodToQuery object query (TextQueryMethod_TEXT_QUERY_METHOD_ENDS_WITH object) =
           TextEndsWith query \<and>
         TextMethodToQuery object query
           (TextQueryMethod_TEXT_QUERY_METHOD_ENDS_WITH_IGNORE_CASE object) =
           TextEndsWithIgnoreCase query"
proof (intro conjI impI)
  assume "method \<notin> set (recognized_methods object)"
  then show m: "TextMethodToQuery object query method = - 1"
    by (rule TextMethodToQuery_default)
  have "(- 1 :: int) \<notin> set (valid_comparisons query)"
    using assms(2) by fastforce
  with m show "TextMethodToQuery object query method \<notin> set (valid_comparisons query)"
    by simp
next
  show "TextMethodToQuery object query (TextQueryMethod_TEXT_QUERY_METHOD_EQUALS object) =
          TextEquals query"
    using TextMethodToQuery_nth [OF assms(1), of 0 query]
    by (simp add: recognized_methods_def valid_comparisons_def)
next
  show "TextMethodToQuery object query
          (TextQueryMethod_TEXT_QUERY_METHOD_EQUALS_IGNORE_CASE object) =
          TextEqualsIgnoreCase query"
    using TextMethodToQuery_nth [OF assms(1), of 1 query]
    by (simp add: recognized_methods_def valid_comparisons_def)
next
  show "TextMethodToQuery object query (TextQueryMethod_TEXT_QUERY_METHOD_STARTS_WITH object) =
          TextStartsWith query"
    using TextMethodToQuery_nth [OF assms(1), of 2 query]
    by (simp add: recognized_methods_def valid_comparisons_def)
next
  show "TextMethodToQuery object query
          (TextQueryMethod_TEXT_QUERY_METHOD_STARTS_WITH_IGNORE_CASE object) =
          TextStartsWithIgnoreCase query"
    using TextMethodToQuery_nth [OF assms(1), of 3 query]
    by (simp add: recognized_methods_def valid_comparisons_def)
next
  show "TextMethodToQuery object query (TextQueryMethod_TEXT_QUERY_METHOD_CONTAINS object) =
          TextContains query"
    using TextMethodToQuery_nth [OF assms(1), of 4 query]
    by (simp add: recognized_methods_def valid_comparisons_def)
next
  show "TextMethodToQuery object query
          (TextQueryMethod_TEXT_QUERY_METHOD_CONTAINS_IGNORE_CASE object) =
          TextContainsIgnoreCase query"
    using TextMethodToQuery_nth [OF assms(1), of 5 query]
    by (simp add: recognized_methods_def valid_comparisons_def)
next
  show "TextMethodToQuery object query (TextQueryMethod_TEXT_QUERY_METHOD_ENDS_WITH object) =
          TextEndsWith query"
    using TextMethodToQuery_nth [OF assms(1), of 6 query]
    by (simp add: recognized_methods_def valid_comparisons_def)
next
  show "TextMethodToQuery object query
          (TextQueryMethod_TEXT_QUERY_METHOD_ENDS_WITH_IGNORE_CASE object) =
          TextEndsWithIgnoreCase query"
    using TextMethodToQuery_nth [OF assms(1), of 7 query]
    by (simp add: recognized_methods_def valid_comparisons_def)
qed

theorem TextMethodToQuery_sentinel_witness:
  "distinct (recognized_methods sample_TextQueryMethod) \<and>
   list_all (\<lambda>k. 0 \<le> k) (valid_comparisons sample_TextComparison) \<and>
   8 \<notin> set (recognized_methods sample_TextQueryMethod) \<and>
   TextMethodToQuery sample_TextQueryMethod sample_TextComparison 8 = - 1 \<and>
   TextMethodToQuery sample_TextQueryMethod sample_TextComparison 8
     \<notin> set (valid_comparisons sample_TextComparison) \<and>
   TextMethodToQuery sample_TextQueryMethod sample_TextComparison 0 = 0 \<and>
   TextMethodToQuery sample_TextQueryMethod sample_TextComparison 5 = 5 \<and>
   TextMethodToQuery sample_TextQueryMethod sample_TextComparison 7 = 7"
proof -
  have n: "8 \<notin> set (recognized_methods sample_TextQueryMethod)"
    by (simp add: recognized_methods_def sample_TextQueryMethod_def)
  have methods:
    "TextQueryMethod_TEXT_QUERY_METHOD_EQUALS sample_TextQueryMethod = 0"
    "TextQueryMethod_TEXT_QUERY_METHOD_CONTAINS_IGNORE_CASE sample_TextQueryMethod = 5"
    "TextQueryMethod_TEXT_QUERY_METHOD_ENDS_WITH_IGNORE_CASE sample_TextQueryMethod = 7"
    by (simp_all add: sample_TextQueryMethod_def)
  have kinds:
    "TextEquals sample_TextComparison = 0"
    "TextContainsIgnoreCase sample_TextComparison = 5"
    "TextEndsWithIgnoreCase sample_TextComparison = 7"
    by (simp_all add: sample_TextComparison_def)
  from TextMethodToQuery_sentinel [OF sample_methods_distinct sample_comparisons_nonneg, of 8]
       n sample_methods_distinct sample_comparisons_nonneg
  show ?thesis
    by (auto simp: methods kinds list_all_iff)
qed

subsection \<open>Domain validation types\<close>

text \<open>
  Claim C10. On the three named values the two domain-validation-type converters are
  inverse to each other: \<open>DomainValidationTypeToDomain\<close> after
  \<open>DomainValidationTypeFromModel\<close> is the identity on Unspecified, DNS and HTTP of the
  domain package, and \<open>DomainValidationTypeFromModel\<close> after
  \<open>DomainValidationTypeToDomain\<close> is the identity on UNSPECIFIED, DNS and HTTP of the
  protobuf enum. Every other input, on either side, is mapped to the Unspecified value
  of the other side. The three constants of each enumeration are pairwise different.
\<close>

theorem DomainValidationType_inverse:
  assumes "distinct [OrgDomainValidationTypeUnspecified domain,
                     OrgDomainValidationTypeHTTP domain,
                     OrgDomainValidationTypeDNS domain]"
    and "distinct [DomainValidationType_DOMAIN_VALIDATION_TYPE_UNSPECIFIED org_pb,
                   DomainValidationType_DOMAIN_VALIDATION_TYPE_HTTP org_pb,
                   DomainValidationType_DOMAIN_VALIDATION_TYPE_DNS org_pb]"
  shows "(\<forall>v \<in> {OrgDomainValidationTypeUnspecified domain,
               OrgDomainValidationTypeDNS domain,
               OrgDomainValidationTypeHTTP domain}.
            DomainValidationTypeToDomain domain org_pb
              (DomainValidationTypeFromModel domain org_pb v) = v) \<and>
         (\<forall>p \<in> {DomainValidationType_DOMAIN_VALIDATION_TYPE_UNSPECIFIED org_pb,
               DomainValidationType_DOMAIN_VALIDATION_TYPE_DNS org_pb,
               DomainValidationType_DOMAIN_VALIDATION_TYPE_HTTP org_pb}.
            DomainValidationTypeFromModel domain org_pb
              (DomainValidationTypeToDomain domain org_pb p) = p) \<and>
         (validationType \<notin> {OrgDomainValidationTypeDNS domain,
                             OrgDomainValidationTypeHTTP domain} \<longrightarrow>
            DomainValidationTypeFromModel domain org_pb validationType =
              DomainValidationType_DOMAIN_VALIDATION_TYPE_UNSPECIFIED org_pb) \<and>
         (pbType \<notin> {DomainValidationType_DOMAIN_VALIDATION_TYPE_HTTP org_pb,
                     DomainValidationType_DOMAIN_VALIDATION_TYPE_DNS org_pb} \<longrightarrow>
            DomainValidationTypeToDomain domain org_pb pbType =
              OrgDomainValidationTypeUnspecified domain)"
  using assms
  by (auto simp add: DomainValidationTypeFromModel_def DomainValidationTypeToDomain_def)

theorem DomainValidationType_inverse_witness:
  "map (\<lambda>v. DomainValidationTypeToDomain sample_OrgDomainValidationType
              sample_DomainValidationType
              (DomainValidationTypeFromModel sample_OrgDomainValidationType
                 sample_DomainValidationType v)) [0, 1, 2] = [0, 1, 2] \<and>
   map (\<lambda>p. DomainValidationTypeFromModel sample_OrgDomainValidationType
              sample_DomainValidationType
              (DomainValidationTypeToDomain sample_OrgDomainValidationType
                 sample_DomainValidationType p)) [0, 1, 2] = [0, 1, 2] \<and>
   DomainValidationTypeFromModel sample_OrgDomainValidationType
     sample_DomainValidationType 3 = 0 \<and>
   DomainValidationTypeToDomain sample_OrgDomainValidationType
     sample_DomainValidationType 3 = 0"
  using DomainValidationType_inverse
          [of sample_OrgDomainValidationType sample_DomainValidationType 3 3]
  by (simp add: sample_OrgDomainValidationType_def sample_DomainValidationType_def)

subsection \<open>Details with optional timestamps\<close>

text \<open>
  Claim C4, as it stands, fails for one field: \<open>DomainToChangeDetailsPb\<close> never sets the
  creation date of its message. Here the input has a creation date that is not the zero
  time, the event date is converted to the change date, and the creation date of the
  message is unset all the same.
\<close>

theorem DomainToChangeDetailsPb_CreationDate_counterexample:
  "\<not> IsZero \<lparr>sec = 63900000000, nsec = 5\<rparr> \<and>
   timestamppb_New \<lparr>sec = 63900000000, nsec = 5\<rparr> = \<lparr>Seconds = 1764403200, Nanos = 5\<rparr> \<and>
   DomainToChangeDetailsPb
     (Some \<lparr>ObjectDetails.Sequence = 7,
            EventDate = \<lparr>sec = 63900000001, nsec = 0\<rparr>,
            ObjectDetails.CreationDate = \<lparr>sec = 63900000000, nsec = 5\<rparr>,
            ObjectDetails.ResourceOwner = ''org1''\<rparr>) =
     Inr \<lparr>Details.Sequence = 7, ChangeDate = Some \<lparr>Seconds = 1764403201, Nanos = 0\<rparr>,
          Details.ResourceOwner = ''org1'', Details.CreationDate = None\<rparr>"
  by (simp add: DomainToChangeDetailsPb_def IsZero_def timestamppb_New_def Let_def)

text \<open>
  Claim C4, amended. \<open>DomainToDetailsPb\<close> and \<open>ToViewDetailsPb\<close> leave the change date
  and the creation date of the message unset when the input timestamp (the event date or
  change date, and the creation date) is the zero time, and set the field to the
  converted timestamp otherwise. \<open>DomainToChangeDetailsPb\<close> does so for the change date,
  from the event date, and leaves the creation date unset for every input.
\<close>

theorem details_timestamp_omitted_iff_zero:
  "(\<exists>details. DomainToDetailsPb (Some od) = Inr details \<and>
      Details.ChangeDate details =
        (if IsZero (ObjectDetails.EventDate od) then None
         else Some (timestamppb_New (ObjectDetails.EventDate od))) \<and>
      Details.CreationDate details =
        (if IsZero (ObjectDetails.CreationDate od) then None
         else Some (timestamppb_New (ObjectDetails.CreationDate od)))) \<and>
   Details.CreationDate (ToViewDetailsPb sequence creationDate changeDate resourceOwner) =
     (if IsZero creationDate then None else Some (timestamppb_New creationDate)) \<and>
   Details.ChangeDate (ToViewDetailsPb sequence creationDate changeDate resourceOwner) =
     (if IsZero changeDate then None else Some (timestamppb_New changeDate)) \<and>
   (\<exists>details. DomainToChangeDetailsPb (Some od) = Inr details \<and>
      Details.ChangeDate details =
        (if IsZero (ObjectDetails.EventDate od) then None
         else Some (timestamppb_New (ObjectDetails.EventDate od))) \<and>
      Details.CreationDate details = None)"
  by (simp add: DomainToDetailsPb_def ToViewDetailsPb_def DomainToChangeDetailsPb_def Let_def)

theorem details_timestamp_omitted_iff_zero_witness:
  "DomainToDetailsPb
     (Some \<lparr>ObjectDetails.Sequence = 7,
            EventDate = \<lparr>sec = 0, nsec = 0\<rparr>,
            ObjectDetails.CreationDate = \<lparr>sec = 63900000000, nsec = 5\<rparr>,
            ObjectDetails.ResourceOwner = ''org1''\<rparr>) =
     Inr \<lparr>Details.Sequence = 7, ChangeDate = None, Details.ResourceOwner = ''org1'',
          Details.CreationDate = Some \<lparr>Seconds = 1764403200, Nanos = 5\<rparr>\<rparr> \<and>
   ToViewDetailsPb 9 \<lparr>sec = 0, nsec = 0\<rparr> \<lparr>sec = 63900000001, nsec = 0\<rparr> ''org1'' =
     \<lparr>Details.Sequence = 9, ChangeDate = Some \<lparr>Seconds = 1764403201, Nanos = 0\<rparr>,
      Details.ResourceOwner = ''org1'', Details.CreationDate = None\<rparr> \<and>
   DomainToChangeDetailsPb
     (Some \<lparr>ObjectDetails.Sequence = 7,
            EventDate = \<lparr>sec = 0, nsec = 0\<rparr>,
            ObjectDetails.CreationDate = \<lparr>sec = 63900000000, nsec = 5\<rparr>,
            ObjectDetails.ResourceOwner = ''org1''\<rparr>) =
     Inr \<lparr>Details.Sequence = 7, ChangeDate = None, Details.ResourceOwner = ''org1'',
          Details.CreationDate = None\<rparr>"
  using details_timestamp_omitted_iff_zero
          [of "\<lparr>ObjectDetails.Sequence = 7,
                EventDate = \<lparr>sec = 0, nsec = 0\<rparr>,
                ObjectDetails.CreationDate = \<lparr>sec = 63900000000, nsec = 5\<rparr>,
                ObjectDetails.ResourceOwner = ''org1''\<rparr>"
              9 "\<lparr>sec = 0, nsec = 0\<rparr>" "\<lparr>sec = 63900000001, nsec = 0\<rparr>" "''org1''"]
  by (simp add: DomainToDetailsPb_def ToViewDetailsPb_def DomainToChangeDetailsPb_def
        IsZero_def timestamppb_New_def Let_def)

text \<open>
  Sequence and resource owner are copied by the converters, and the two converters that
  take a pointer panic on nil.
\<close>

lemma details_Sequence_ResourceOwner:
  "DomainToDetailsPb (Some od) = Inr details \<Longrightarrow>
     Details.Sequence details = ObjectDetails.Sequence od \<and>
     Details.ResourceOwner details = ObjectDetails.ResourceOwner od"
  by (auto simp: DomainToDetailsPb_def Let_def split: if_splits)

lemma details_nil:
  "DomainToDetailsPb None = Inl NilPointerDereference"
  "DomainToChangeDetailsPb None = Inl NilPointerDereference"
  by (simp_all add: DomainToDetailsPb_def DomainToChangeDetailsPb_def)

section \<open>Properties of the organization service\<close>

subsection \<open>The identifiers of the organizations\<close>

text \<open>No request adds an organization: the identifiers after a request were there before.\<close>

lemma map_of_Some_key: "map_of s k = Some v \<Longrightarrow> k \<in> fst ` set s"
  by (metis domI dom_map_of_conv_image_fst)

lemma keys_update_known:
  "map_of s k = Some v \<Longrightarrow> fst ` set (AList.update k v' s) = fst ` set s"
  by (auto simp: dom_update dest: map_of_Some_key)

lemma keys_DeactivateOrganization:
  "fst ` set (snd (DeactivateOrganization s orgId)) = fst ` set s"
  by (simp add: DeactivateOrganization_def keys_update_known split: option.splits)

lemma keys_ReactivateOrganization:
  "fst ` set (snd (ReactivateOrganization s orgId)) = fst ` set s"
  by (simp add: ReactivateOrganization_def keys_update_known split: option.splits)

lemma keys_DeleteOrganization:
  "fst ` set (snd (DeleteOrganization s orgId)) \<subseteq> fst ` set s"
  by (simp add: DeleteOrganization_def dom_delete_subset split: option.splits)

lemma keys_AddOrganizationDomain:
  "fst ` set (snd (AddOrganizationDomain s orgId d)) = fst ` set s"
  by (simp add: AddOrganizationDomain_def keys_update_known split: option.splits)

lemma keys_DeleteOrganizationDomain:
  "fst ` set (snd (DeleteOrganizationDomain s orgId d)) = fst ` set s"
  by (simp add: DeleteOrganizationDomain_def keys_update_known split: option.splits)

lemma keys_SetOrganizationMetadata:
  "fst ` set (snd (SetOrganizationMetadata s orgId md)) = fst ` set s"
  by (simp add: SetOrganizationMetadata_def keys_update_known split: option.splits)

lemma keys_DeleteOrganizationMetadata:
  "fst ` set (snd (DeleteOrganizationMetadata s orgId ks)) = fst ` set s"
  by (simp add: DeleteOrganizationMetadata_def keys_update_known split: option.splits)

lemma keys_serve: "fst ` set (serve s r) \<subseteq> fst ` set s"
proof (cases r)
  case (DeleteOrganizationRequest x)
  then show ?thesis using keys_DeleteOrganization by simp
qed (simp_all add: keys_DeactivateOrganization keys_ReactivateOrganization
      keys_AddOrganizationDomain keys_DeleteOrganizationDomain
      keys_SetOrganizationMetadata keys_DeleteOrganizationMetadata)

lemma keys_serveAll: "fst ` set (serveAll s rs) \<subseteq> fst ` set s"
  unfolding serveAll_def
proof (induction rs arbitrary: s)
  case Nil
  show ?case by simp
next
  case (Cons r rs)
  have "fst ` set (foldl serve (serve s r) rs) \<subseteq> fst ` set (serve s r)"
    by (rule Cons.IH)
  also have "\<dots> \<subseteq> fst ` set s" by (rule keys_serve)
  finally show ?case by simp
qed

lemma ListOrganizations_unknown:
  assumes "orgId \<notin> fst ` set s" and "OrgIDQuery orgId \<in> set queries"
  shows "ListOrganizations s queries = Inr []"
proof -
  have "\<not> list_all (\<lambda>q. matches q entry) queries" if "entry \<in> set s" for entry
  proof
    assume "list_all (\<lambda>q. matches q entry) queries"
    with assms(2) have "matches (OrgIDQuery orgId) entry"
      by (simp add: list_all_iff)
    then have "fst entry = orgId" by (cases entry) simp
    with that assms(1) show False by force
  qed
  then show ?thesis by (simp add: ListOrganizations_def filter_empty_conv)
qed

lemma sample_org1: "map_of sampleService ''org1'' =
    Some \<lparr>Name = ''First'', State = ORG_STATE_ACTIVE, Domains = [''first.example''],
          Metadata = [(''key4'', [4]), (''key5'', [5]), (''key6'', [6])]\<rparr>"
  by (simp add: sampleService_def)

lemma sample_org2: "map_of sampleService ''org2'' =
    Some \<lparr>Name = ''Second'', State = ORG_STATE_INACTIVE, Domains = [], Metadata = []\<rparr>"
  by (simp add: sampleService_def)

subsection \<open>Deleting an organization\<close>

text \<open>
  Claim C7. After a successful \<open>DeleteOrganization\<close>, and after any further requests,
  every \<open>ListOrganizations\<close> request that filters by the identifier of the deleted
  organization (whatever its other clauses) succeeds and returns no organization.
\<close>

theorem DeleteOrganization_then_list_empty:
  assumes "fst (DeleteOrganization s orgId) = Inr r"
    and "OrgIDQuery orgId \<in> set queries"
  shows "ListOrganizations (serveAll (snd (DeleteOrganization s orgId)) requests) queries = Inr []"
proof -
  from assms(1) have "snd (DeleteOrganization s orgId) = AList.delete orgId s"
    by (simp add: DeleteOrganization_def split: option.splits)
  then have "orgId \<notin> fst ` set (snd (DeleteOrganization s orgId))"
    by (simp add: delete_notin_dom)
  with keys_serveAll have "orgId \<notin> fst ` set (serveAll (snd (DeleteOrganization s orgId)) requests)"
    by blast
  then show ?thesis using assms(2) by (rule ListOrganizations_unknown)
qed

theorem DeleteOrganization_then_list_empty_witness:
  "fst (DeleteOrganization sampleService ''org1'') = Inr () \<and>
   OrgIDQuery ''org1'' \<in> set [OrgStateQuery ORG_STATE_ACTIVE, OrgIDQuery ''org1''] \<and>
   ListOrganizations
     (serveAll (snd (DeleteOrganization sampleService ''org1''))
        [AddOrganizationDomainRequest ''org1'' ''first.example'',
         ReactivateOrganizationRequest ''org2''])
     [OrgStateQuery ORG_STATE_ACTIVE, OrgIDQuery ''org1''] = Inr []"
proof -
  have h: "fst (DeleteOrganization sampleService ''org1'') = Inr ()"
    by (simp add: DeleteOrganization_def sample_org1)
  have q: "OrgIDQuery ''org1'' \<in> set [OrgStateQuery ORG_STATE_ACTIVE, OrgIDQuery ''org1'']"
    by simp
  from DeleteOrganization_then_list_empty [OF h q] h q show ?thesis by simp
qed

subsection \<open>Deactivating and reactivating\<close>

text \<open>
  Claim C3. For an existing organization: \<open>DeactivateOrganization\<close> of an inactive one
  fails with the conflict error "Organisation is already deactivated" and
  \<open>ReactivateOrganization\<close> of an active one fails with the conflict error "Organisation
  is already active", and both leave the service, hence the state of the organization,
  as it was; \<open>DeactivateOrganization\<close> of an active one and \<open>ReactivateOrganization\<close> of
  an inactive one succeed and switch the state.
\<close>

theorem DeactivateReactivate_conflict:
  assumes "map_of s orgId = Some org"
  shows "(State org = ORG_STATE_INACTIVE \<longrightarrow>
            DeactivateOrganization s orgId =
              (Inl (Conflict ''Organisation is already deactivated''), s)) \<and>
         (State org = ORG_STATE_ACTIVE \<longrightarrow>
            ReactivateOrganization s orgId =
              (Inl (Conflict ''Organisation is already active''), s)) \<and>
         (State org = ORG_STATE_ACTIVE \<longrightarrow>
            fst (DeactivateOrganization s orgId) = Inr () \<and>
            map_of (snd (DeactivateOrganization s orgId)) orgId =
              Some (org\<lparr>State := ORG_STATE_INACTIVE\<rparr>)) \<and>
         (State org = ORG_STATE_INACTIVE \<longrightarrow>
            fst (ReactivateOrganization s orgId) = Inr () \<and>
            map_of (snd (ReactivateOrganization s orgId)) orgId =
              Some (org\<lparr>State := ORG_STATE_ACTIVE\<rparr>))"
  using assms
  by (simp add: DeactivateOrganization_def ReactivateOrganization_def update_conv')

theorem DeactivateReactivate_conflict_witness:
  "map_of sampleService ''org2'' \<noteq> None \<and>
   DeactivateOrganization sampleService ''org2'' =
     (Inl (Conflict ''Organisation is already deactivated''), sampleService) \<and>
   fst (ReactivateOrganization sampleService ''org2'') = Inr () \<and>
   map_option State (map_of (snd (ReactivateOrganization sampleService ''org2'')) ''org2'') =
     Some ORG_STATE_ACTIVE \<and>
   ReactivateOrganization sampleService ''org1'' =
     (Inl (Conflict ''Organisation is already active''), sampleService) \<and>
   fst (DeactivateOrganization sampleService ''org1'') = Inr () \<and>
   map_option State (map_of (snd (DeactivateOrganization sampleService ''org1'')) ''org1'') =
     Some ORG_STATE_INACTIVE"
  using DeactivateReactivate_conflict [OF sample_org1] DeactivateReactivate_conflict [OF sample_org2] sample_org2
  by simp

subsection \<open>Adding a domain twice\<close>

text \<open>
  Claim C6. When \<open>AddOrganizationDomain\<close> has succeeded for a domain, calling it again
  for the same organization and domain fails with the already-exists error
  "Errors.Already.Exists" and changes nothing, and afterwards \<open>ListOrganizationDomains\<close>
  of that organization succeeds and contains the domain exactly once.
\<close>

theorem AddOrganizationDomain_twice:
  assumes "fst (AddOrganizationDomain s orgId d) = Inr r"
  shows "AddOrganizationDomain (snd (AddOrganizationDomain s orgId d)) orgId d =
           (Inl (AlreadyExists ''Errors.Already.Exists''), snd (AddOrganizationDomain s orgId d)) \<and>
         (\<exists>ds. ListOrganizationDomains
                 (snd (AddOrganizationDomain (snd (AddOrganizationDomain s orgId d)) orgId d)) orgId
               = Inr ds \<and> count_list ds d = 1)"
proof -
  from assms obtain org where org: "map_of s orgId = Some org" "d \<notin> set (Domains org)"
    by (auto simp: AddOrganizationDomain_def split: option.splits if_splits)
  define s1 where "s1 = AList.update orgId (org\<lparr>Domains := Domains org @ [d]\<rparr>) s"
  from org have s1: "snd (AddOrganizationDomain s orgId d) = s1"
    by (simp add: AddOrganizationDomain_def s1_def)
  have look: "map_of s1 orgId = Some (org\<lparr>Domains := Domains org @ [d]\<rparr>)"
    by (simp add: s1_def update_conv')
  then have second: "AddOrganizationDomain s1 orgId d = (Inl (AlreadyExists ''Errors.Already.Exists''), s1)"
    by (simp add: AddOrganizationDomain_def)
  from org(2) have "count_list (Domains org @ [d]) d = 1"
    by (simp add: count_list_0_iff)
  with look have "ListOrganizationDomains s1 orgId = Inr (Domains org @ [d]) \<and>
      count_list (Domains org @ [d]) d = 1"
    by (simp add: ListOrganizationDomains_def)
  with second show ?thesis unfolding s1 by auto
qed

theorem AddOrganizationDomain_twice_witness:
  "fst (AddOrganizationDomain sampleService ''org2'' ''second.example'') = Inr () \<and>
   AddOrganizationDomain
      (snd (AddOrganizationDomain sampleService ''org2'' ''second.example''))
      ''org2'' ''second.example'' =
     (Inl (AlreadyExists ''Errors.Already.Exists''),
      snd (AddOrganizationDomain sampleService ''org2'' ''second.example'')) \<and>
   (\<exists>ds. ListOrganizationDomains
           (snd (AddOrganizationDomain
              (snd (AddOrganizationDomain sampleService ''org2'' ''second.example''))
              ''org2'' ''second.example'')) ''org2'' = Inr ds \<and>
         count_list ds ''second.example'' = 1)"
proof -
  have h: "fst (AddOrganizationDomain sampleService ''org2'' ''second.example'') = Inr ()"
    by (simp add: AddOrganizationDomain_def sample_org2)
  show ?thesis by (rule conjI [OF h AddOrganizationDomain_twice [OF h]])
qed

text \<open>
  The same for a domain attached at any earlier time: the names attached to an
  organization stay pairwise different under every request, so an attached domain is
  listed once and adding it again fails.
\<close>

lemma list_all_update:
  "list_all P s \<Longrightarrow> P (k, v) \<Longrightarrow> list_all P (AList.update k v s)"
  by (induction s) auto

lemma list_all_delete: "list_all P s \<Longrightarrow> list_all P (AList.delete k s)"
  by (auto simp: AList.delete_eq list_all_iff)

lemma distinctDomains_lookup:
  assumes "distinctDomains s" and "map_of s orgId = Some org"
  shows "distinct (Domains org)"
proof -
  from assms(2) have "(orgId, org) \<in> set s" by (rule map_of_SomeD)
  with assms(1) show ?thesis by (auto simp: distinctDomains_def list_all_iff)
qed

lemma distinctDomains_update:
  "distinctDomains s \<Longrightarrow> distinct (Domains org) \<Longrightarrow> distinctDomains (AList.update orgId org s)"
  unfolding distinctDomains_def by (rule list_all_update) simp_all

lemma distinctDomains_serve:
  assumes "distinctDomains s"
  shows "distinctDomains (serve s r)"
proof (cases r)
  case (DeactivateOrganizationRequest orgId)
  then show ?thesis using assms
    by (auto simp: DeactivateOrganization_def intro!: distinctDomains_update
        dest: distinctDomains_lookup split: option.splits)
next
  case (ReactivateOrganizationRequest orgId)
  then show ?thesis using assms
    by (auto simp: ReactivateOrganization_def intro!: distinctDomains_update
        dest: distinctDomains_lookup split: option.splits)
next
  case (DeleteOrganizationRequest orgId)
  then show ?thesis using assms
    by (auto simp: DeleteOrganization_def distinctDomains_def list_all_delete split: option.splits)
next
  case (AddOrganizationDomainRequest orgId d)
  then show ?thesis using assms
    by (auto simp: AddOrganizationDomain_def intro!: distinctDomains_update
        dest: distinctDomains_lookup split: option.splits)
next
  case (DeleteOrganizationDomainRequest orgId d)
  then show ?thesis using assms
    by (auto simp: DeleteOrganizationDomain_def distinct_removeAll intro!: distinctDomains_update
        dest: distinctDomains_lookup split: option.splits)
next
  case (SetOrganizationMetadataRequest orgId md)
  then show ?thesis using assms
    by (auto simp: SetOrganizationMetadata_def intro!: distinctDomains_update
        dest: distinctDomains_lookup split: option.splits)
next
  case (DeleteOrganizationMetadataRequest orgId ks)
  then show ?thesis using assms
    by (auto simp: DeleteOrganizationMetadata_def intro!: distinctDomains_update
        dest: distinctDomains_lookup split: option.splits)
qed

lemma distinctDomains_serveAll:
  "distinctDomains s \<Longrightarrow> distinctDomains (serveAll s rs)"
  unfolding serveAll_def by (induction rs arbitrary: s) (simp_all add: distinctDomains_serve)

lemma distinctDomains_empty: "distinctDomains []"
  by (simp add: distinctDomains_def)

lemma count_list_distinct: "distinct xs \<Longrightarrow> x \<in> set xs \<Longrightarrow> count_list xs x = 1"
  by (induction xs) (auto simp: count_list_0_iff)

lemma AddOrganizationDomain_attached:
  assumes "distinctDomains s" and "map_of s orgId = Some org" and "d \<in> set (Domains org)"
  shows "AddOrganizationDomain s orgId d = (Inl (AlreadyExists ''Errors.Already.Exists''), s)"
    and "ListOrganizationDomains s orgId = Inr (Domains org)"
    and "count_list (Domains org) d = 1"
proof -
  show "AddOrganizationDomain s orgId d = (Inl (AlreadyExists ''Errors.Already.Exists''), s)"
    using assms(2,3) by (simp add: AddOrganizationDomain_def)
  show "ListOrganizationDomains s orgId = Inr (Domains org)"
    using assms(2) by (simp add: ListOrganizationDomains_def)
  from assms(1,2) have "distinct (Domains org)" by (rule distinctDomains_lookup)
  then show "count_list (Domains org) d = 1"
    using assms(3) by (rule count_list_distinct)
qed

subsection \<open>Generating a domain validation\<close>



lemma length_generateToken: "length (generateToken random) = tokenLength"
  by (simp add: generateToken_def)



text \<open>The answer on the sample state and the sample random source, computed.\<close>

lemma GenerateOrganizationDomainValidation_sample:
  "GenerateOrganizationDomainValidation sampleRandom sampleService ''org1'' ''first.example''
     DOMAIN_VALIDATION_TYPE_DNS =
   Inr \<lparr>Token = ''abcdefghijklmnopqrstuvwxyzabcdef'',
        Url = ''_zitadel-challenge.first.example''\<rparr>"
  by (simp add: GenerateOrganizationDomainValidation_def sample_org1 generateToken_def
        tokenLength_def sampleRandom_def upt_rec Let_def)

subsection \<open>Deleting metadata\<close>

lemma metadataOf_update:
  "metadataOf (AList.update orgId org s) orgId = Metadata org"
  by (simp add: metadataOf_def update_conv')

text \<open>
  Claim C2. If every requested key is a key of the organization's metadata, the metadata
  listed after \<open>DeleteOrganizationMetadata\<close> is the metadata listed before without the
  entries of the requested keys: exactly those are removed, every other entry remains;
  the request succeeds unless it has no key at all. If some requested key is not a key of
  the organization's metadata, the request fails with one error and the service is
  unchanged; so it is for every request on an unknown organization.
\<close>

theorem DeleteOrganizationMetadata_all_or_nothing:
  "(set keys \<subseteq> fst ` set (metadataOf s orgId) \<longrightarrow>
      metadataOf (snd (DeleteOrganizationMetadata s orgId keys)) orgId =
        filter (\<lambda>(k, v). k \<notin> set keys) (metadataOf s orgId)) \<and>
   (set keys \<subseteq> fst ` set (metadataOf s orgId) \<and> keys \<noteq> [] \<longrightarrow>
      fst (DeleteOrganizationMetadata s orgId keys) = Inr ()) \<and>
   (\<not> set keys \<subseteq> fst ` set (metadataOf s orgId) \<longrightarrow>
      (\<exists>e. DeleteOrganizationMetadata s orgId keys = (Inl e, s))) \<and>
   (map_of s orgId = None \<longrightarrow>
      (\<exists>e. DeleteOrganizationMetadata s orgId keys = (Inl e, s)))"
proof (intro conjI impI)
  assume sub: "set keys \<subseteq> fst ` set (metadataOf s orgId)"
  show "metadataOf (snd (DeleteOrganizationMetadata s orgId keys)) orgId =
        filter (\<lambda>(k, v). k \<notin> set keys) (metadataOf s orgId)"
  proof (cases "keys = []")
    case True
    then show ?thesis by (simp add: DeleteOrganizationMetadata_def)
  next
    case False
    with sub obtain org where org: "map_of s orgId = Some org"
      by (cases "map_of s orgId") (auto simp: metadataOf_def)
    with sub False have "snd (DeleteOrganizationMetadata s orgId keys) =
        AList.update orgId (org\<lparr>Metadata := filter (\<lambda>(k, v). k \<notin> set keys) (Metadata org)\<rparr>) s"
      by (simp add: DeleteOrganizationMetadata_def list_all_iff subset_iff)
    then show ?thesis using org
      by (simp add: metadataOf_update) (simp add: metadataOf_def)
  qed
next
  assume sub: "set keys \<subseteq> fst ` set (metadataOf s orgId) \<and> keys \<noteq> []"
  then obtain org where org: "map_of s orgId = Some org"
    by (cases "map_of s orgId") (auto simp: metadataOf_def)
  with sub show "fst (DeleteOrganizationMetadata s orgId keys) = Inr ()"
    by (simp add: DeleteOrganizationMetadata_def list_all_iff subset_iff)
next
  assume "\<not> set keys \<subseteq> fst ` set (metadataOf s orgId)"
  then have "keys \<noteq> []" "\<not> list_all (\<lambda>k. k \<in> fst ` set (metadataOf s orgId)) keys"
    by (auto simp: list_all_iff)
  then show "\<exists>e. DeleteOrganizationMetadata s orgId keys = (Inl e, s)"
    by (simp add: DeleteOrganizationMetadata_def)
next
  assume none: "map_of s orgId = None"
  show "\<exists>e. DeleteOrganizationMetadata s orgId keys = (Inl e, s)"
  proof (cases keys)
    case Nil
    then show ?thesis by (simp add: DeleteOrganizationMetadata_def)
  next
    case (Cons k ks)
    with none show ?thesis by (simp add: DeleteOrganizationMetadata_def metadataOf_def)
  qed
qed

theorem DeleteOrganizationMetadata_all_or_nothing_witness:
  "set [''key4'', ''key6''] \<subseteq> fst ` set (metadataOf sampleService ''org1'') \<and>
   metadataOf (snd (DeleteOrganizationMetadata sampleService ''org1'' [''key4'', ''key6'']))
     ''org1'' = [(''key5'', [5])] \<and>
   fst (DeleteOrganizationMetadata sampleService ''org1'' [''key4'', ''key6'']) = Inr () \<and>
   \<not> set [''key4'', ''key7''] \<subseteq> fst ` set (metadataOf sampleService ''org1'') \<and>
   (\<exists>e. DeleteOrganizationMetadata sampleService ''org1'' [''key4'', ''key7''] =
          (Inl e, sampleService)) \<and>
   map_of sampleService ''org3'' = None \<and>
   (\<exists>e. DeleteOrganizationMetadata sampleService ''org3'' [''key4''] = (Inl e, sampleService))"
proof -
  have n: "map_of sampleService ''org3'' = None"
    by (simp add: sampleService_def)
  from DeleteOrganizationMetadata_all_or_nothing [of "[''key4'', ''key6'']" sampleService "''org1''"]
       DeleteOrganizationMetadata_all_or_nothing [of "[''key4'', ''key7'']" sampleService "''org1''"]
       DeleteOrganizationMetadata_all_or_nothing [of "[''key4'']" sampleService "''org3''"]
       n
  show ?thesis by (simp add: metadataOf_def sample_org1)
qed

end
